theory Spec2Isabelle
  imports Main
begin

section \<open>The icon pipeline of generate-app-icons.py\<close>

text \<open>
  The script is orchestration over a filesystem and four external programs
  (\<^verbatim>\<open>magick\<close>, \<^verbatim>\<open>iconutil\<close>, \<^verbatim>\<open>cp\<close>, \<^verbatim>\<open>rm\<close>). The embedding threads a
  \<open>world\<close> through every function: the filesystem and the trace of what the script did
  (lines printed, subprocesses started, directories made, files opened for writing).
  A Python exception is a value: every function returns \<open>Returned v\<close> or \<open>Raised x\<close>
  together with the world it leaves behind.

  The external programs are a parameter, the record \<open>env\<close>: which executables are on the
  search path, which command lines exit with status 0, and the bytes the converters
  produce. They are functions of the command line and of the bytes read, which is what
  a deterministic tool is.

  Printed messages are kept without the emoji (and the blanks after it) that starts most
  of them, and without the text of the caught exception that ends two of them.
\<close>

subsection \<open>Filesystem, trace, exceptions\<close>

type_synonym path = string

datatype node = File string | Dir

type_synonym fsys = "path \<Rightarrow> node option"

datatype event = Print string | Run "string list" | Mkdir path | WriteFile path

datatype exn =
    CalledProcessError "string list"
  | FileNotFoundError string
  | FileExistsError path
  | NotADirectoryError path
  | IsADirectoryError path

datatype 'a result = Returned 'a | Raised exn

record world =
  fs :: fsys
  trace :: "event list"

record env =
  platform :: string
  installed :: "string \<Rightarrow> bool"
  exit0 :: "string list \<Rightarrow> bool"
  render :: "string \<Rightarrow> string \<Rightarrow> string"
  combine :: "string \<Rightarrow> string list \<Rightarrow> string"

definition print :: "string \<Rightarrow> world \<Rightarrow> world" where
  "print s w = w\<lparr>trace := trace w @ [Print s]\<rparr>"

definition path_exists :: "path \<Rightarrow> world \<Rightarrow> bool" where
  "path_exists p w = (fs w p \<noteq> None)"

definition bytes_of :: "fsys \<Rightarrow> path \<Rightarrow> string" where
  "bytes_of f p = (case f p of Some (File c) \<Rightarrow> c | _ \<Rightarrow> [])"

text \<open>Sequencing of statements, and \<^verbatim>\<open>try: ... except subprocess.CalledProcessError\<close>.\<close>

definition and_then ::
  "'a result \<times> world \<Rightarrow> ('a \<Rightarrow> world \<Rightarrow> 'b result \<times> world) \<Rightarrow> 'b result \<times> world" where
  "and_then r k = (case r of (Returned v, w) \<Rightarrow> k v w | (Raised x, w) \<Rightarrow> (Raised x, w))"

definition except_CalledProcessError ::
  "'a result \<times> world \<Rightarrow> (world \<Rightarrow> 'a result \<times> world) \<Rightarrow> 'a result \<times> world" where
  "except_CalledProcessError r h =
     (case r of (Raised (CalledProcessError c), w) \<Rightarrow> h w | _ \<Rightarrow> r)"

text \<open>
  \<^verbatim>\<open>subprocess.run(cmd, check=True)\<close>: FileNotFoundError when the executable is not on
  the search path, CalledProcessError when it exits with a non-zero status. The last
  argument is what the command does to the filesystem when it succeeds; a command that
  fails leaves the filesystem as it was.
\<close>

definition subprocess_run ::
  "env \<Rightarrow> string list \<Rightarrow> (fsys \<Rightarrow> fsys) \<Rightarrow> world \<Rightarrow> unit result \<times> world" where
  "subprocess_run e cmd effect w =
     (let w1 = w\<lparr>trace := trace w @ [Run cmd]\<rparr> in
      if \<not> installed e (hd cmd) then (Raised (FileNotFoundError (hd cmd)), w1)
      else if exit0 e cmd then (Returned (), w1\<lparr>fs := effect (fs w1)\<rparr>)
      else (Raised (CalledProcessError cmd), w1))"

text \<open>What the four programs do when they succeed.\<close>

definition cp_effect :: "path \<Rightarrow> path \<Rightarrow> fsys \<Rightarrow> fsys" where
  "cp_effect src dst f = (case f src of Some (File c) \<Rightarrow> f(dst \<mapsto> File c) | _ \<Rightarrow> f)"

definition under :: "path \<Rightarrow> path \<Rightarrow> bool" where
  "under d p = (p = d \<or> take (Suc (length d)) p = d @ ''/'')"

definition rm_rf_effect :: "path \<Rightarrow> fsys \<Rightarrow> fsys" where
  "rm_rf_effect d f = (\<lambda>p. if under d p then None else f p)"

definition magick_convert_effect :: "env \<Rightarrow> string \<Rightarrow> path \<Rightarrow> path \<Rightarrow> fsys \<Rightarrow> fsys" where
  "magick_convert_effect e geometry src dst f =
     f(dst \<mapsto> File (render e (bytes_of f src) geometry))"

definition magick_combine_effect :: "env \<Rightarrow> path list \<Rightarrow> path \<Rightarrow> fsys \<Rightarrow> fsys" where
  "magick_combine_effect e inputs dst f =
     f(dst \<mapsto> File (combine e ''magick'' (map (bytes_of f) inputs)))"

definition iconutil_effect :: "env \<Rightarrow> path \<Rightarrow> string list \<Rightarrow> fsys \<Rightarrow> fsys" where
  "iconutil_effect e d names f =
     f(take (length d - 8) d @ ''.icns'' \<mapsto>
         File (combine e ''iconutil'' (map (\<lambda>n. bytes_of f (d @ ''/'' @ n)) names)))"

text \<open>
  \<^verbatim>\<open>Path(p).mkdir(exist_ok=True)\<close>: nothing to do on a directory, FileExistsError on a
  regular file, FileNotFoundError or NotADirectoryError when the parent is not a directory.
  A path without a slash lies in the current directory, which exists.
\<close>

definition parent :: "path \<Rightarrow> path" where
  "parent p = rev (tl (dropWhile (\<lambda>c. c \<noteq> CHR ''/'') (rev p)))"

definition mkdir :: "path \<Rightarrow> world \<Rightarrow> unit result \<times> world" where
  "mkdir p w =
     (let w1 = w\<lparr>trace := trace w @ [Mkdir p]\<rparr> in
      case fs w p of
        Some Dir \<Rightarrow> (Returned (), w1)
      | Some (File c) \<Rightarrow> (Raised (FileExistsError p), w1)
      | None \<Rightarrow>
          if CHR ''/'' \<notin> set p then (Returned (), w1\<lparr>fs := (fs w)(p \<mapsto> Dir)\<rparr>)
          else (case fs w (parent p) of
                  Some Dir \<Rightarrow> (Returned (), w1\<lparr>fs := (fs w)(p \<mapsto> Dir)\<rparr>)
                | Some (File c) \<Rightarrow> (Raised (NotADirectoryError p), w1)
                | None \<Rightarrow> (Raised (FileNotFoundError p), w1)))"

text \<open>\<^verbatim>\<open>with open(p, 'w') as f: f.write(text)\<close>.\<close>

definition write_text :: "path \<Rightarrow> string \<Rightarrow> world \<Rightarrow> unit result \<times> world" where
  "write_text p text w =
     (let w1 = w\<lparr>trace := trace w @ [WriteFile p]\<rparr> in
      case fs w p of
        Some Dir \<Rightarrow> (Raised (IsADirectoryError p), w1)
      | _ \<Rightarrow> (Returned (), w1\<lparr>fs := (fs w)(p \<mapsto> File text)\<rparr>))"

text \<open>\<^verbatim>\<open>str(n)\<close> for the non-negative sizes of the script.\<close>

fun str :: "nat \<Rightarrow> string" where
  "str n = (if n < 10 then [''0123456789'' ! n]
            else str (n div 10) @ [''0123456789'' ! (n mod 10)])"

declare str.simps [simp del]

text \<open>
  A Python dict keeps the position of a key's first insertion and the value of its
  last; a dict display inserts its items from left to right.
\<close>

fun dict_setitem :: "('k \<times> 'v) list \<Rightarrow> 'k \<Rightarrow> 'v \<Rightarrow> ('k \<times> 'v) list" where
  "dict_setitem [] k v = [(k, v)]"
| "dict_setitem ((k', v') # d) k v =
     (if k' = k then (k, v) # d else (k', v') # dict_setitem d k v)"

definition dict_display :: "('k \<times> 'v) list \<Rightarrow> ('k \<times> 'v) list" where
  "dict_display items = foldl (\<lambda>d (k, v). dict_setitem d k v) [] items"

subsection \<open>check_dependencies\<close>

definition required_tools :: "(string \<times> string) list" where
  "required_tools = dict_display
     [(''magick'', ''ImageMagick (brew install imagemagick)''),
      (''iconutil'', ''macOS iconutil (built-in on macOS)'')]"

fun probe_tools ::
  "env \<Rightarrow> (string \<times> string) list \<Rightarrow> string list \<Rightarrow> world \<Rightarrow> string list result \<times> world" where
  "probe_tools e [] missing w = (Returned missing, w)"
| "probe_tools e ((tool, install_info) # rest) missing w =
     (case subprocess_run e [tool, ''--version''] id w of
        (Returned u, w1) \<Rightarrow> probe_tools e rest missing (print (tool @ '' is available'') w1)
      | (Raised x, w1) \<Rightarrow>
          (let handler =
             (if tool = ''iconutil'' \<and> platform e \<noteq> ''darwin''
              then probe_tools e rest missing
                     (print (tool @ '' not available (not on macOS)'') w1)
              else probe_tools e rest (missing @ [tool @ '' - Install: '' @ install_info]) w1)
           in case x of
                CalledProcessError c \<Rightarrow> handler
              | FileNotFoundError t \<Rightarrow> handler
              | _ \<Rightarrow> (Raised x, w1)))"

definition check_dependencies :: "env \<Rightarrow> world \<Rightarrow> bool result \<times> world" where
  "check_dependencies e w =
     and_then (probe_tools e required_tools [] w) (\<lambda>missing w1.
       if missing \<noteq> [] then
         (Returned False,
          fold (\<lambda>tool. print (''   '' @ tool)) missing
            (print ''\<newline>Missing required tools:'' w1))
       else (Returned True, w1))"

subsection \<open>create_directories\<close>

fun mkdir_each :: "path list \<Rightarrow> world \<Rightarrow> unit result \<times> world" where
  "mkdir_each [] w = (Returned (), w)"
| "mkdir_each (dir_name # rest) w = and_then (mkdir dir_name w) (\<lambda>u. mkdir_each rest)"

definition create_directories :: "world \<Rightarrow> unit result \<times> world" where
  "create_directories w = mkdir_each [''icons'', ''icons/png'', ''build''] w"

subsection \<open>generate_png_sizes\<close>

definition sizes :: "nat list" where
  "sizes = [16, 32, 48, 64, 128, 256, 512, 1024]"

definition svg_file :: path where
  "svg_file = ''prestige-ai-logo.svg''"

definition geometry :: "nat \<Rightarrow> string" where
  "geometry sz = str sz @ ''x'' @ str sz"

definition png_path :: "nat \<Rightarrow> path" where
  "png_path sz = ''icons/png/icon-'' @ geometry sz @ ''.png''"

definition convert_cmd :: "nat \<Rightarrow> string list" where
  "convert_cmd sz =
     [''magick'', ''-background'', ''none'', ''-size'', geometry sz, svg_file, png_path sz]"

definition convert_one :: "env \<Rightarrow> nat \<Rightarrow> world \<Rightarrow> bool result \<times> world" where
  "convert_one e sz w =
     (let output_file = png_path sz in
      except_CalledProcessError
        (and_then
           (subprocess_run e (convert_cmd sz)
              (magick_convert_effect e (geometry sz) svg_file output_file) w)
           (\<lambda>u w1. (Returned True, print (''Generated '' @ output_file) w1)))
        (\<lambda>w1. (Returned False, print (''Failed to generate '' @ output_file) w1)))"

text \<open>
  The loop over the sizes. \<open>convert_one\<close> is one pass through its body: \<open>True\<close> when
  the pass reached its end, \<open>False\<close> when the handler ran \<^verbatim>\<open>return False\<close>.
\<close>

fun convert_each :: "env \<Rightarrow> nat list \<Rightarrow> world \<Rightarrow> bool result \<times> world" where
  "convert_each e [] w = (Returned True, w)"
| "convert_each e (sz # rest) w =
     and_then (convert_one e sz w) (\<lambda>ok w1.
       if ok then convert_each e rest w1 else (Returned False, w1))"

definition generate_png_sizes :: "env \<Rightarrow> world \<Rightarrow> bool result \<times> world" where
  "generate_png_sizes e w =
     (if \<not> path_exists svg_file w
      then (Returned False, print (''SVG file not found: '' @ svg_file) w)
      else convert_each e sizes (print ''Generating PNG files...'' w))"

subsection \<open>create_icns_file\<close>

definition iconset_dir :: path where
  "iconset_dir = ''icons/prestige-ai.iconset''"

definition icon_mappings :: "(nat \<times> string list) list" where
  "icon_mappings = dict_display
     [(16, [''icon_16x16.png'']),
      (32, [''icon_16x16@2x.png'', ''icon_32x32.png'']),
      (64, [''icon_32x32@2x.png'']),
      (128, [''icon_128x128.png'']),
      (256, [''icon_128x128@2x.png'', ''icon_256x256.png'']),
      (512, [''icon_256x256@2x.png'', ''icon_512x512.png'']),
      (1024, [''icon_512x512@2x.png''])]"

fun copy_names :: "env \<Rightarrow> path \<Rightarrow> string list \<Rightarrow> world \<Rightarrow> unit result \<times> world" where
  "copy_names e source [] w = (Returned (), w)"
| "copy_names e source (filename # rest) w =
     (let dest = iconset_dir @ ''/'' @ filename in
      and_then (subprocess_run e [''cp'', source, dest] (cp_effect source dest) w)
        (\<lambda>u. copy_names e source rest))"

fun fill_iconset :: "env \<Rightarrow> (nat \<times> string list) list \<Rightarrow> world \<Rightarrow> unit result \<times> world" where
  "fill_iconset e [] w = (Returned (), w)"
| "fill_iconset e ((sz, filenames) # rest) w =
     (let source = png_path sz in
      if path_exists source w
      then and_then (copy_names e source filenames w) (\<lambda>u. fill_iconset e rest)
      else fill_iconset e rest w)"

definition iconutil_cmd :: "string list" where
  "iconutil_cmd = [''iconutil'', ''-c'', ''icns'', iconset_dir]"

definition rm_cmd :: "string list" where
  "rm_cmd = [''rm'', ''-rf'', iconset_dir]"

definition create_icns_file :: "env \<Rightarrow> world \<Rightarrow> bool result \<times> world" where
  "create_icns_file e w =
     (if platform e \<noteq> ''darwin''
      then (Returned True, print ''Skipping .icns creation (not on macOS)'' w)
      else
        and_then (mkdir iconset_dir w) (\<lambda>u w1.
        and_then (fill_iconset e icon_mappings (print ''Creating .icns file...'' w1)) (\<lambda>u w2.
          except_CalledProcessError
            (and_then
               (subprocess_run e iconutil_cmd
                  (iconutil_effect e iconset_dir (concat (map snd icon_mappings))) w2)
               (\<lambda>u w3.
            and_then
               (subprocess_run e rm_cmd (rm_rf_effect iconset_dir)
                  (print ''Generated icons/prestige-ai.icns'' w3))
               (\<lambda>u w4. (Returned True, w4))))
            (\<lambda>w3. (Returned False, print ''Failed to create .icns file'' w3)))))"

subsection \<open>create_ico_file\<close>

definition ico_sizes :: "nat list" where
  "ico_sizes = [16, 32, 48, 64, 128, 256]"

definition ico_file :: path where
  "ico_file = ''icons/prestige-ai.ico''"

definition existing_files :: "world \<Rightarrow> path list" where
  "existing_files w = filter (\<lambda>f. path_exists f w) (map png_path ico_sizes)"

definition ico_cmd :: "world \<Rightarrow> string list" where
  "ico_cmd w = [''magick''] @ existing_files w @ [ico_file]"

definition create_ico_file :: "env \<Rightarrow> world \<Rightarrow> bool result \<times> world" where
  "create_ico_file e w =
     (if existing_files w = []
      then (Returned False, print ''No PNG files found for .ico creation'' w)
      else
        except_CalledProcessError
          (and_then
             (subprocess_run e (ico_cmd w)
                (magick_combine_effect e (existing_files w) ico_file)
                (print ''Creating .ico file...'' w))
             (\<lambda>u w1. (Returned True, print ''Generated icons/prestige-ai.ico'' w1)))
          (\<lambda>w1. (Returned False, print ''Failed to create .ico file'' w1)))"

subsection \<open>create_favicon_files\<close>

definition favicon_mappings :: "(path \<times> path) list" where
  "favicon_mappings = dict_display
     [(''icons/png/icon-32x32.png'', ''favicon-32x32.png''),
      (''icons/png/icon-16x16.png'', ''favicon-16x16.png''),
      (''icons/png/icon-32x32.png'', ''favicon.png'')]"

fun copy_favicons :: "env \<Rightarrow> (path \<times> path) list \<Rightarrow> world \<Rightarrow> unit result \<times> world" where
  "copy_favicons e [] w = (Returned (), w)"
| "copy_favicons e ((source, dest) # rest) w =
     (if path_exists source w
      then and_then (subprocess_run e [''cp'', source, dest] (cp_effect source dest) w)
             (\<lambda>u w1. copy_favicons e rest (print (''Generated '' @ dest) w1))
      else copy_favicons e rest w)"

definition favicon_cmd :: "string list" where
  "favicon_cmd =
     [''magick'', ''icons/png/icon-16x16.png'', ''icons/png/icon-32x32.png'', ''favicon.ico'']"

definition create_favicon_files :: "env \<Rightarrow> world \<Rightarrow> unit result \<times> world" where
  "create_favicon_files e w =
     and_then (copy_favicons e favicon_mappings (print ''Creating favicon files...'' w)) (\<lambda>u w1.
       if path_exists ''icons/png/icon-16x16.png'' w1 \<and> path_exists ''icons/png/icon-32x32.png'' w1
       then
         except_CalledProcessError
           (and_then
              (subprocess_run e favicon_cmd
                 (magick_combine_effect e
                    [''icons/png/icon-16x16.png'', ''icons/png/icon-32x32.png''] ''favicon.ico'') w1)
              (\<lambda>u w2. (Returned (), print ''Generated favicon.ico'' w2)))
           (\<lambda>w2. (Returned (), print ''Failed to create favicon.ico'' w2))
       else (Returned (), w1))"

subsection \<open>update_electron_config\<close>

definition package_json_updates :: string where
  \<open>package_json_updates = concat (map (\<lambda>line. line @ ''\<newline>'')
     ['''',
      ''# Add these to your package.json build configuration:'',
      '''',
      ''"build": {'',
      ''  "appId": "com.prestige-ai.app",'',
      ''  "productName": "Prestige AI",'',
      ''  "directories": {'',
      ''    "output": "dist"'',
      ''  },'',
      ''  "files": ['',
      ''    "dist-electron/",'',
      ''    "dist/",'',
      ''    "package.json"'',
      ''  ],'',
      ''  "mac": {'',
      ''    "icon": "icons/prestige-ai.icns",'',
      ''    "category": "public.app-category.developer-tools"'',
      ''  },'',
      ''  "win": {'',
      ''    "icon": "icons/prestige-ai.ico",'',
      ''    "target": "nsis"'',
      ''  },'',
      ''  "linux": {'',
      ''    "icon": "icons/png/icon-512x512.png",'',
      ''    "target": "AppImage"'',
      ''  }'',
      ''}''])\<close>

definition config_file :: path where
  "config_file = ''electron-build-config.txt''"

definition update_electron_config :: "world \<Rightarrow> unit result \<times> world" where
  "update_electron_config w =
     and_then (write_text config_file package_json_updates
                 (print ''Updating Electron configuration...'' w))
       (\<lambda>u w1. (Returned (),
          print ''Created electron-build-config.txt with build configuration'' w1))"

subsection \<open>main\<close>

definition closing_lines :: "string list" where
  "closing_lines =
     [''\<newline>App icon generation complete!'',
      ''\<newline>Generated files:'',
      ''icons/png/ - PNG files in all sizes'',
      ''icons/prestige-ai.icns - macOS app icon'',
      ''icons/prestige-ai.ico - Windows app icon'',
      ''favicon.ico, favicon-*.png - Web favicons'',
      ''electron-build-config.txt - Build configuration'',
      ''\<newline>Next steps:'',
      ''1. Copy the build config from electron-build-config.txt to your package.json'',
      ''2. Update your Electron main.ts to use the new icon'',
      ''3. Test the build process'']"

definition banner :: "world \<Rightarrow> world" where
  "banner w = print (replicate 40 CHR ''='') (print ''Prestige AI App Icon Generator'' w)"

text \<open>The four steps of \<^verbatim>\<open>main\<close> after the PNG files, and its closing lines.\<close>

definition assemble :: "env \<Rightarrow> world \<Rightarrow> unit result \<times> world" where
  "assemble e w =
     and_then (create_icns_file e w) (\<lambda>icns_ok w1.
     and_then (create_ico_file e w1) (\<lambda>ico_ok w2.
     and_then (create_favicon_files e w2) (\<lambda>u w3.
     and_then (update_electron_config w3) (\<lambda>u w4.
       (Returned (), fold print closing_lines w4)))))"

definition main :: "env \<Rightarrow> world \<Rightarrow> unit result \<times> world" where
  "main e w =
     and_then (check_dependencies e (banner w)) (\<lambda>deps_ok w1.
       if \<not> deps_ok
       then (Returned (), print ''\<newline>Please install required dependencies and try again'' w1)
       else
         and_then (create_directories w1) (\<lambda>u w2.
         and_then (generate_png_sizes e w2) (\<lambda>png_ok w3.
           if \<not> png_ok
           then (Returned (), print ''Failed to generate PNG files'' w3)
           else assemble e w3)))"

subsection \<open>Observations on a run, and example environments\<close>

text \<open>The events a step added to the trace, and the command lines among them.\<close>

definition new_events :: "world \<Rightarrow> world \<Rightarrow> event list" where
  "new_events w w' = drop (length (trace w)) (trace w')"

fun commands :: "event list \<Rightarrow> string list list" where
  "commands [] = []"
| "commands (Run cmd # evs) = cmd # commands evs"
| "commands (ev # evs) = commands evs"

text \<open>
  What a run of successful conversions leaves: the filesystem after the sizes \<open>szs\<close>
  were converted in order, and the events of those conversions.
\<close>

definition converted_fs :: "env \<Rightarrow> nat list \<Rightarrow> fsys \<Rightarrow> fsys" where
  "converted_fs e szs f =
     fold (\<lambda>sz. magick_convert_effect e (geometry sz) svg_file (png_path sz)) szs f"

definition generated_events :: "nat list \<Rightarrow> event list" where
  "generated_events szs =
     concat (map (\<lambda>sz. [Run (convert_cmd sz), Print (''Generated '' @ png_path sz)]) szs)"

text \<open>
  The sizes whose conversion is reached and succeeds, the nodes at the eight PNG paths,
  and the paths that no step after the PNG step writes or removes.
\<close>

definition converted :: "env \<Rightarrow> nat list \<Rightarrow> nat list" where
  "converted e szs =
     (if installed e ''magick'' then takeWhile (\<lambda>sz. exit0 e (convert_cmd sz)) szs else [])"

definition png_outputs :: "world \<Rightarrow> node option list" where
  "png_outputs w = map (\<lambda>sz. fs w (png_path sz)) sizes"

definition kept :: "path \<Rightarrow> bool" where
  "kept q = (\<not> under iconset_dir q \<and>
     q \<notin> {''icons/prestige-ai.icns'', ico_file, ''favicon.png'', ''favicon-16x16.png'',
            ''favicon.ico'', config_file})"

text \<open>A tool answers its version query: it is on the search path and exits with status 0.\<close>

definition available :: "env \<Rightarrow> string \<Rightarrow> bool" where
  "available e tool = (installed e tool \<and> exit0 e [tool, ''--version''])"

text \<open>An event that cannot change the filesystem: a printed line or a version query.\<close>

fun probe_or_print :: "event \<Rightarrow> bool" where
  "probe_or_print (Print s) = True"
| "probe_or_print (Run cmd) = (tl cmd = [''--version''])"
| "probe_or_print (Mkdir p) = False"
| "probe_or_print (WriteFile p) = False"

text \<open>
  Example environments: every tool present and succeeding, some command lines failing,
  one tool absent. Example worlds: an empty directory; one holding only the logo; one
  holding the output directories and the two smallest rasters; one holding the logo, an
  outdated raster and an unrelated file; and the world the two bundle steps leave.
\<close>

definition all_tools :: "string \<Rightarrow> env" where
  "all_tools pf = \<lparr>platform = pf, installed = (\<lambda>t. True), exit0 = (\<lambda>c. True),
     render = (\<lambda>c g. g @ '':'' @ c), combine = (\<lambda>t cs. concat cs)\<rparr>"

definition failing :: "string \<Rightarrow> string list list \<Rightarrow> env" where
  "failing pf bad = (all_tools pf)\<lparr>exit0 := (\<lambda>c. c \<notin> set bad)\<rparr>"

definition without :: "string \<Rightarrow> string \<Rightarrow> env" where
  "without pf t = (all_tools pf)\<lparr>installed := (\<lambda>t'. t' \<noteq> t)\<rparr>"

definition empty_world :: world where
  "empty_world = \<lparr>fs = Map.empty, trace = []\<rparr>"

definition svg_world :: world where
  "svg_world = \<lparr>fs = [svg_file \<mapsto> File ''<svg/>''], trace = []\<rparr>"

definition rasters_world :: world where
  "rasters_world = \<lparr>fs = [''icons'' \<mapsto> Dir, ''icons/png'' \<mapsto> Dir,
      ''icons/png/icon-16x16.png'' \<mapsto> File ''png16'',
      ''icons/png/icon-32x32.png'' \<mapsto> File ''png32''], trace = []\<rparr>"

definition stale_world :: world where
  "stale_world = \<lparr>fs = [svg_file \<mapsto> File ''<svg/>'',
      ''icons/png/icon-16x16.png'' \<mapsto> File ''stale'', ''notes.txt'' \<mapsto> File ''kept''],
     trace = [Print ''an earlier line'']\<rparr>"






section \<open>Properties\<close>

lemmas tool_defs = all_tools_def failing_def without_def

lemmas path_defs =
  png_path_def geometry_def svg_file_def iconset_dir_def ico_file_def config_file_def

lemmas step_defs =
  subprocess_run_def and_then_def except_CalledProcessError_def print_def mkdir_def
  write_text_def path_exists_def Let_def parent_def




subsection \<open>Steps and what they leave untouched\<close>

lemma mkdir_Returned:
  "mkdir p w = (Returned u, w') \<Longrightarrow> w' = \<lparr>fs = (fs w)(p \<mapsto> Dir), trace = trace w @ [Mkdir p]\<rparr>"
  by (auto simp: mkdir_def Let_def fun_upd_idem split: option.splits node.splits if_splits)

lemma mkdir_Raised:
  "mkdir p w = (Raised x, w') \<Longrightarrow> w' = w\<lparr>trace := trace w @ [Mkdir p]\<rparr>"
  by (auto simp: mkdir_def Let_def split: option.splits node.splits if_splits)

lemma mkdir_each_Returned:
  "mkdir_each ds w = (Returned u, w') \<Longrightarrow>
   w' = \<lparr>fs = fold (\<lambda>d f. f(d \<mapsto> Dir)) ds (fs w), trace = trace w @ map Mkdir ds\<rparr>"
proof (induction ds arbitrary: w)
  case Nil
  then show ?case by simp
next
  case (Cons d ds)
  from Cons.prems obtain w1 where m: "mkdir d w = (Returned (), w1)" and r: "mkdir_each ds w1 = (Returned u, w')"
    by (auto simp: and_then_def split: prod.splits result.splits)
  from mkdir_Returned [OF m] Cons.IH [OF r] show ?case by simp
qed


lemma subprocess_run_Raised:
  "subprocess_run e cmd eff w = (Raised x, w') \<Longrightarrow> w' = w\<lparr>trace := trace w @ [Run cmd]\<rparr>"
  by (auto simp: subprocess_run_def Let_def split: if_splits)

lemma subprocess_run_fs:
  "subprocess_run e cmd eff w = (r, w') \<Longrightarrow> eff (fs w) q = fs w q \<Longrightarrow> fs w' q = fs w q"
  by (auto simp: subprocess_run_def Let_def split: if_splits)

lemma cp_effect_other: "q \<noteq> dst \<Longrightarrow> cp_effect src dst f q = f q"
  by (simp add: cp_effect_def split: option.splits node.splits)

lemma copy_names_fs:
  "copy_names e src names w = (r, w') \<Longrightarrow> (\<And>n. q \<noteq> iconset_dir @ ''/'' @ n) \<Longrightarrow> fs w' q = fs w q"
proof (induction names arbitrary: w)
  case Nil
  then show ?case by simp
next
  case (Cons n names)
  obtain r1 w1 where s: "subprocess_run e [''cp'', src, iconset_dir @ ''/'' @ n]
       (cp_effect src (iconset_dir @ ''/'' @ n)) w = (r1, w1)"
    by (cases "subprocess_run e [''cp'', src, iconset_dir @ ''/'' @ n]
       (cp_effect src (iconset_dir @ ''/'' @ n)) w")
  have f1: "fs w1 q = fs w q"
    using subprocess_run_fs [OF s] Cons.prems(2) by (simp add: cp_effect_other)
  show ?case
  proof (cases r1)
    case (Returned u)
    with Cons.prems(1) s have "copy_names e src names w1 = (r, w')"
      by (simp add: and_then_def Let_def)
    from Cons.IH [OF this Cons.prems(2)] f1 show ?thesis by simp
  next
    case (Raised x)
    with Cons.prems(1) s have "w' = w1" by (simp add: and_then_def Let_def)
    with f1 show ?thesis by simp
  qed
qed

lemma fill_iconset_fs:
  "fill_iconset e m w = (r, w') \<Longrightarrow> (\<And>n. q \<noteq> iconset_dir @ ''/'' @ n) \<Longrightarrow> fs w' q = fs w q"
proof (induction m arbitrary: w)
  case Nil
  then show ?case by simp
next
  case (Cons a m)
  obtain sz names where a: "a = (sz, names)" by (cases a)
  show ?case
  proof (cases "path_exists (png_path sz) w")
    case False
    with Cons.prems(1) a have "fill_iconset e m w = (r, w')" by simp
    from Cons.IH [OF this Cons.prems(2)] show ?thesis .
  next
    case True
    obtain r1 w1 where c: "copy_names e (png_path sz) names w = (r1, w1)"
      by (cases "copy_names e (png_path sz) names w")
    have f1: "fs w1 q = fs w q" using copy_names_fs [OF c Cons.prems(2)] .
    show ?thesis
    proof (cases r1)
      case (Returned u)
      with Cons.prems(1) a True c have "fill_iconset e m w1 = (r, w')"
        by (simp add: and_then_def Let_def)
      from Cons.IH [OF this Cons.prems(2)] f1 show ?thesis by simp
    next
      case (Raised x)
      with Cons.prems(1) a True c have "w' = w1" by (simp add: and_then_def Let_def)
      with f1 show ?thesis by simp
    qed
  qed
qed


subsection \<open>The dependency check\<close>

lemma ex_events:
  "list_all P evs \<Longrightarrow>
   \<exists>evs'. w\<lparr>trace := trace w @ evs\<rparr> = w\<lparr>trace := trace w @ evs'\<rparr> \<and> list_all P evs'"
  by blast

lemma check_dependencies_frame:
  "\<exists>b evs. check_dependencies e w = (Returned b, w\<lparr>trace := trace w @ evs\<rparr>)
     \<and> list_all probe_or_print evs"
  by (auto simp add: check_dependencies_def required_tools_def dict_display_def
        subprocess_run_def and_then_def print_def Let_def intro!: ex_events)

text \<open>
  The verdict of the check depends on the tools only: \<^verbatim>\<open>magick\<close> is mandatory everywhere,
  \<^verbatim>\<open>iconutil\<close> on macOS only.
\<close>

lemma check_dependencies_verdict:
  "fst (check_dependencies e w) =
     Returned (available e ''magick'' \<and> (available e ''iconutil'' \<or> platform e \<noteq> ''darwin''))"
  by (auto simp add: check_dependencies_def required_tools_def dict_display_def available_def
        subprocess_run_def and_then_def print_def Let_def)

lemma check_dependencies_fs:
  "check_dependencies e w = (r, w1) \<Longrightarrow> fs w1 = fs w"
  using check_dependencies_frame [of e w] by auto

text \<open>
  C6: when the dependency check reports a missing mandatory tool, \<open>main\<close> returns with the
  filesystem exactly as it found it: no directory is made and no file is written. All it
  added to the trace are printed lines and the version queries of the check itself.
\<close>

theorem missing_tool_no_mutation:
  assumes "fst (check_dependencies e (banner w)) = Returned False"
  shows "\<exists>evs. main e w = (Returned (), w\<lparr>trace := trace w @ evs\<rparr>)
           \<and> list_all probe_or_print evs"
proof -
  obtain b evs where
    r: "check_dependencies e (banner w)
          = (Returned b, (banner w)\<lparr>trace := trace (banner w) @ evs\<rparr>)"
    and h: "list_all probe_or_print evs"
    using check_dependencies_frame by blast
  from assms r have b: "b = False" by simp
  let ?evs = "[Print ''Prestige AI App Icon Generator'', Print (replicate 40 CHR ''='')]
     @ evs @ [Print ''\<newline>Please install required dependencies and try again'']"
  have "main e w = (Returned (), w\<lparr>trace := trace w @ ?evs\<rparr>)"
    unfolding main_def r and_then_def by (simp add: b print_def banner_def)
  moreover have "list_all probe_or_print ?evs" using h by simp
  ultimately show ?thesis by blast
qed

theorem missing_tool_no_mutation_witness:
  "fst (check_dependencies (without ''darwin'' ''magick'') (banner svg_world)) = Returned False \<and>
   (\<exists>evs. main (without ''darwin'' ''magick'') svg_world
            = (Returned (), svg_world\<lparr>trace := trace svg_world @ evs\<rparr>)
      \<and> list_all probe_or_print evs)"
proof -
  have h: "fst (check_dependencies (without ''darwin'' ''magick'') (banner svg_world))
             = Returned False"
    by (simp add: check_dependencies_def required_tools_def dict_display_def subprocess_run_def
        and_then_def print_def Let_def without_def all_tools_def)
  show ?thesis using h missing_tool_no_mutation [OF h] by simp
qed

subsection \<open>The macOS bundle on another system\<close>

text \<open>
  C8: when the host is not macOS, \<open>create_icns_file\<close> returns \<open>True\<close> and leaves the
  filesystem untouched; it only prints that it skips the step.
\<close>

theorem create_icns_file_elsewhere:
  "platform e \<noteq> ''darwin'' \<Longrightarrow>
   create_icns_file e w =
     (Returned True, w\<lparr>trace := trace w @ [Print ''Skipping .icns creation (not on macOS)'']\<rparr>)"
  by (simp add: create_icns_file_def print_def)

theorem create_icns_file_elsewhere_witness:
  "platform (all_tools ''linux'') \<noteq> ''darwin'' \<and>
   create_icns_file (all_tools ''linux'') svg_world =
     (Returned True, svg_world\<lparr>trace := [Print ''Skipping .icns creation (not on macOS)'']\<rparr>)"
  using create_icns_file_elsewhere [of "all_tools ''linux''" svg_world]
  by (simp add: all_tools_def svg_world_def)

subsection \<open>A missing logo\<close>

text \<open>
  C1 says that with the logo missing the failure is reported before any output directory
  is made. \<open>main\<close> calls \<open>create_directories\<close> before \<open>generate_png_sizes\<close>, and
  only the latter looks for the logo: in an empty directory with every tool present the
  three directories are made first and the failure is printed after them.
\<close>

theorem svg_missing_counterexample:
  "\<not> path_exists svg_file empty_world \<and>
   main (all_tools ''darwin'') empty_world =
     (Returned (),
      \<lparr>fs = [''icons'' \<mapsto> Dir, ''icons/png'' \<mapsto> Dir, ''build'' \<mapsto> Dir],
       trace = [Print ''Prestige AI App Icon Generator'',
                Print (replicate 40 CHR ''=''),
                Run [''magick'', ''--version''], Print ''magick is available'',
                Run [''iconutil'', ''--version''], Print ''iconutil is available'',
                Mkdir ''icons'', Mkdir ''icons/png'', Mkdir ''build'',
                Print ''SVG file not found: prestige-ai-logo.svg'',
                Print ''Failed to generate PNG files'']\<rparr>)"
  by (simp add: main_def banner_def check_dependencies_def required_tools_def dict_display_def
      create_directories_def generate_png_sizes_def empty_world_def tool_defs step_defs path_defs)

text \<open>
  C1, as the code has it: when the logo is missing, the dependency check passes and the
  directories can be made, \<open>main\<close> makes \<open>icons\<close>, \<open>icons/png\<close> and \<open>build\<close> first and
  then reports the failure and returns; the converter is never started and nothing else
  is written.
\<close>

theorem svg_missing_after_directories:
  assumes "\<not> path_exists svg_file w"
    and "check_dependencies e (banner w) = (Returned True, w1)"
    and "create_directories w1 = (Returned (), w2)"
  shows "main e w = (Returned (),
            print ''Failed to generate PNG files'' (print (''SVG file not found: '' @ svg_file) w2))
       \<and> trace w2 = trace w1 @ [Mkdir ''icons'', Mkdir ''icons/png'', Mkdir ''build'']
       \<and> fs w2 = (fs w)(''icons'' \<mapsto> Dir, ''icons/png'' \<mapsto> Dir, ''build'' \<mapsto> Dir)"
proof -
  have f1: "fs w1 = fs w"
    using check_dependencies_fs [OF assms(2)] by (simp add: banner_def print_def)
  have w2: "w2 = \<lparr>fs = (fs w)(''icons'' \<mapsto> Dir, ''icons/png'' \<mapsto> Dir, ''build'' \<mapsto> Dir),
                 trace = trace w1 @ [Mkdir ''icons'', Mkdir ''icons/png'', Mkdir ''build'']\<rparr>"
    using mkdir_each_Returned [OF assms(3) [unfolded create_directories_def]] f1 by simp
  have "\<not> path_exists svg_file w2"
    using assms(1) by (simp add: w2 path_exists_def svg_file_def)
  then have "generate_png_sizes e w2 = (Returned False, print (''SVG file not found: '' @ svg_file) w2)"
    by (simp add: generate_png_sizes_def)
  then have "main e w = (Returned (),
            print ''Failed to generate PNG files'' (print (''SVG file not found: '' @ svg_file) w2))"
    unfolding main_def by (simp add: assms(2,3) and_then_def)
  with w2 show ?thesis by simp
qed

theorem svg_missing_after_directories_witness:
  "\<not> path_exists svg_file empty_world \<and>
   fs (snd (main (all_tools ''linux'') empty_world)) ''icons/png'' = Some Dir \<and>
   commands (trace (snd (main (all_tools ''linux'') empty_world))) =
     [[''magick'', ''--version''], [''iconutil'', ''--version'']]"
proof -
  let ?e = "all_tools ''linux''"
  let ?w1 = "empty_world\<lparr>trace := [Print ''Prestige AI App Icon Generator'',
                Print (replicate 40 CHR ''=''),
                Run [''magick'', ''--version''], Print ''magick is available'',
                Run [''iconutil'', ''--version''], Print ''iconutil is available'']\<rparr>"
  let ?w2 = "\<lparr>fs = [''icons'' \<mapsto> Dir, ''icons/png'' \<mapsto> Dir, ''build'' \<mapsto> Dir],
       trace = trace ?w1 @ [Mkdir ''icons'', Mkdir ''icons/png'', Mkdir ''build'']\<rparr>"
  have a: "\<not> path_exists svg_file empty_world"
    by (simp add: path_exists_def empty_world_def)
  have b: "check_dependencies ?e (banner empty_world) = (Returned True, ?w1)"
    by (simp add: banner_def check_dependencies_def required_tools_def dict_display_def
      empty_world_def tool_defs step_defs)
  have c: "create_directories ?w1 = (Returned (), ?w2)"
    by (simp add: create_directories_def empty_world_def step_defs)
  show ?thesis
    using a svg_missing_after_directories [OF a b c]
    by (simp add: print_def)
qed

subsection \<open>The macOS bundle\<close>

text \<open>
  What \<open>create_icns_file\<close> does on macOS once the staging directory is filled. The
  \<^verbatim>\<open>rm -rf\<close> of the staging directory stands inside the \<^verbatim>\<open>try\<close> block, after the bundler
  call. A succeeding bundler followed by a succeeding \<^verbatim>\<open>rm\<close> gives \<open>True\<close> with the
  directory gone; a succeeding bundler followed by a failing \<^verbatim>\<open>rm\<close> gives \<open>False\<close>, or
  FileNotFoundError when \<^verbatim>\<open>rm\<close> is absent, with the directory in place; a failing bundler
  gives \<open>False\<close> at once, \<^verbatim>\<open>rm\<close> is not started and the directory is in place.
\<close>

lemma create_icns_file_after_staging:
  assumes "platform e = ''darwin''"
    and "mkdir iconset_dir w = (Returned (), w1)"
    and "fill_iconset e icon_mappings (print ''Creating .icns file...'' w1) = (Returned (), w2)"
    and "installed e ''iconutil''"
  shows "(exit0 e iconutil_cmd \<and> installed e ''rm'' \<and> exit0 e rm_cmd \<longrightarrow>
            create_icns_file e w =
              (Returned True,
               w2\<lparr>fs := rm_rf_effect iconset_dir
                       (iconutil_effect e iconset_dir (concat (map snd icon_mappings)) (fs w2)),
                trace := trace w2 @ [Run iconutil_cmd, Print ''Generated icons/prestige-ai.icns'',
                                    Run rm_cmd]\<rparr>)
            \<and> fs (snd (create_icns_file e w)) iconset_dir = None)
       \<and> (exit0 e iconutil_cmd \<and> installed e ''rm'' \<and> \<not> exit0 e rm_cmd \<longrightarrow>
            create_icns_file e w =
              (Returned False,
               w2\<lparr>fs := iconutil_effect e iconset_dir (concat (map snd icon_mappings)) (fs w2),
                trace := trace w2 @ [Run iconutil_cmd, Print ''Generated icons/prestige-ai.icns'',
                                    Run rm_cmd, Print ''Failed to create .icns file'']\<rparr>)
            \<and> fs (snd (create_icns_file e w)) iconset_dir = Some Dir)
       \<and> (exit0 e iconutil_cmd \<and> \<not> installed e ''rm'' \<longrightarrow>
            create_icns_file e w =
              (Raised (FileNotFoundError ''rm''),
               w2\<lparr>fs := iconutil_effect e iconset_dir (concat (map snd icon_mappings)) (fs w2),
                trace := trace w2 @ [Run iconutil_cmd, Print ''Generated icons/prestige-ai.icns'',
                                    Run rm_cmd]\<rparr>)
            \<and> fs (snd (create_icns_file e w)) iconset_dir = Some Dir)
       \<and> (\<not> exit0 e iconutil_cmd \<longrightarrow>
            create_icns_file e w =
              (Returned False,
               w2\<lparr>trace := trace w2 @ [Run iconutil_cmd, Print ''Failed to create .icns file'']\<rparr>)
            \<and> fs (snd (create_icns_file e w)) iconset_dir = Some Dir)"
proof -
  have d1: "fs w1 iconset_dir = Some Dir"
    using mkdir_Returned [OF assms(2)] by simp
  have d2: "fs w2 iconset_dir = Some Dir"
    using fill_iconset_fs [OF assms(3), of iconset_dir] d1 by (simp add: print_def)
  have step: "create_icns_file e w =
      except_CalledProcessError
        (and_then
           (subprocess_run e iconutil_cmd
              (iconutil_effect e iconset_dir (concat (map snd icon_mappings))) w2)
           (\<lambda>u w3.
              and_then
                (subprocess_run e rm_cmd (rm_rf_effect iconset_dir)
                   (print ''Generated icons/prestige-ai.icns'' w3))
                (\<lambda>u w4. (Returned True, w4))))
        (\<lambda>w3. (Returned False, print ''Failed to create .icns file'' w3))"
    by (simp add: create_icns_file_def assms(1,2,3) and_then_def)
  have i: "installed e (hd iconutil_cmd)" "hd rm_cmd = ''rm''"
    using assms(4) by (simp_all add: iconutil_cmd_def rm_cmd_def)
  have gone: "rm_rf_effect iconset_dir f iconset_dir = None" for f
    by (simp add: rm_rf_effect_def under_def)
  have stays: "iconutil_effect e iconset_dir ns f iconset_dir = f iconset_dir" for ns f
    by (simp add: iconutil_effect_def iconset_dir_def)
  show ?thesis
    using d2 i
    by (simp add: step subprocess_run_def and_then_def except_CalledProcessError_def
        print_def Let_def gone stays)
qed

text \<open>
  C2 says that the staging directory is deleted on the failure path of the bundler too,
  and the source announces the deletion (\<^verbatim>\<open># Clean up iconset directory\<close>) without
  reaching it on that path: there is no \<^verbatim>\<open>finally\<close> clause, and the handler only prints
  and returns \<open>False\<close>. On macOS, with the 16 and 32 pixel rasters present, every tool
  on the search path, \<^verbatim>\<open>rm\<close> ready to succeed and \<^verbatim>\<open>iconutil -c icns\<close> exiting with a
  non-zero status, \<open>create_icns_file\<close> returns \<open>False\<close>; the staging directory and the
  copies in it are still there, and the trace ends with the bundler call and the
  failure line: \<^verbatim>\<open>rm\<close> was never started.
\<close>

theorem staging_left_behind:
  "platform (failing ''darwin'' [iconutil_cmd]) = ''darwin'' \<and>
   installed (failing ''darwin'' [iconutil_cmd]) ''iconutil'' \<and>
   installed (failing ''darwin'' [iconutil_cmd]) ''rm'' \<and>
   exit0 (failing ''darwin'' [iconutil_cmd]) rm_cmd \<and>
   \<not> exit0 (failing ''darwin'' [iconutil_cmd]) iconutil_cmd \<and>
   fst (create_icns_file (failing ''darwin'' [iconutil_cmd]) rasters_world) = Returned False \<and>
   fs (snd (create_icns_file (failing ''darwin'' [iconutil_cmd]) rasters_world)) iconset_dir
     = Some Dir \<and>
   fs (snd (create_icns_file (failing ''darwin'' [iconutil_cmd]) rasters_world))
     ''icons/prestige-ai.iconset/icon_16x16.png'' = Some (File ''png16'') \<and>
   trace (snd (create_icns_file (failing ''darwin'' [iconutil_cmd]) rasters_world)) =
     [Mkdir ''icons/prestige-ai.iconset'',
      Print ''Creating .icns file...'',
      Run [''cp'', ''icons/png/icon-16x16.png'', ''icons/prestige-ai.iconset/icon_16x16.png''],
      Run [''cp'', ''icons/png/icon-32x32.png'', ''icons/prestige-ai.iconset/icon_16x16@2x.png''],
      Run [''cp'', ''icons/png/icon-32x32.png'', ''icons/prestige-ai.iconset/icon_32x32.png''],
      Run [''iconutil'', ''-c'', ''icns'', ''icons/prestige-ai.iconset''],
      Print ''Failed to create .icns file'']"
  by (simp add: create_icns_file_def icon_mappings_def dict_display_def iconutil_cmd_def
      rm_cmd_def rasters_world_def tool_defs step_defs path_defs str.simps cp_effect_def)


subsection \<open>The Windows bundle\<close>

text \<open>
  C4 says that an output file is produced if and only if at least one raster exists.
  With rasters present the packer is started, but when it exits with a non-zero status
  the handler returns \<open>False\<close> and there is no output file.
\<close>

theorem ico_packer_failure_counterexample:
  "path_exists (png_path 16) rasters_world \<and>
   create_ico_file (failing ''linux'' [ico_cmd rasters_world]) rasters_world =
     (Returned False,
      rasters_world\<lparr>trace :=
        [Print ''Creating .ico file...'',
         Run [''magick'', ''icons/png/icon-16x16.png'', ''icons/png/icon-32x32.png'',
              ''icons/prestige-ai.ico''],
         Print ''Failed to create .ico file'']\<rparr>) \<and>
   fs rasters_world ico_file = None"
  by (simp add: create_ico_file_def ico_cmd_def existing_files_def ico_sizes_def
      rasters_world_def tool_defs step_defs path_defs str.simps)

text \<open>
  C4, as the code has it: the packer is started exactly when at least one raster of the
  sizes 16, 32, 48, 64, 128, 256 exists, with the existing rasters as its inputs. With
  none the function returns \<open>False\<close> and starts nothing. With some, the output file is
  written and \<open>True\<close> returned exactly when the packer exits with status 0; otherwise
  \<open>False\<close> is returned and the filesystem is unchanged.
\<close>

theorem ico_packer_gate:
  "commands (new_events w (snd (create_ico_file e w))) =
      (if \<exists>sz \<in> set ico_sizes. path_exists (png_path sz) w then [ico_cmd w] else [])
   \<and> ((\<forall>sz \<in> set ico_sizes. \<not> path_exists (png_path sz) w) \<longrightarrow>
        create_ico_file e w =
          (Returned False, w\<lparr>trace := trace w @ [Print ''No PNG files found for .ico creation'']\<rparr>))
   \<and> ((\<exists>sz \<in> set ico_sizes. path_exists (png_path sz) w) \<and> installed e ''magick'' \<longrightarrow>
        create_ico_file e w =
          (if exit0 e (ico_cmd w)
           then (Returned True,
                 w\<lparr>fs := (fs w)(ico_file \<mapsto>
                            File (combine e ''magick'' (map (bytes_of (fs w)) (existing_files w)))),
                   trace := trace w @ [Print ''Creating .ico file...'', Run (ico_cmd w),
                                       Print ''Generated icons/prestige-ai.ico'']\<rparr>)
           else (Returned False,
                 w\<lparr>trace := trace w @ [Print ''Creating .ico file...'', Run (ico_cmd w),
                                       Print ''Failed to create .ico file'']\<rparr>)))"
proof -
  have ex: "(existing_files w = []) = (\<forall>sz \<in> set ico_sizes. \<not> path_exists (png_path sz) w)"
    by (simp add: existing_files_def filter_empty_conv)
  have hd: "hd (ico_cmd w) = ''magick''" by (simp add: ico_cmd_def)
  show ?thesis
    by (simp add: ex create_ico_file_def subprocess_run_def and_then_def
        except_CalledProcessError_def print_def Let_def hd new_events_def magick_combine_effect_def)
qed

theorem ico_packer_gate_witness:
  "(\<exists>sz \<in> set ico_sizes. path_exists (png_path sz) rasters_world) \<and>
   installed (all_tools ''linux'') ''magick'' \<and>
   commands (new_events rasters_world (snd (create_ico_file (all_tools ''linux'') rasters_world)))
     = [ico_cmd rasters_world] \<and>
   fst (create_ico_file (all_tools ''linux'') rasters_world) = Returned True \<and>
   \<not> (\<exists>sz \<in> set ico_sizes. path_exists (png_path sz) empty_world) \<and>
   commands (new_events empty_world (snd (create_ico_file (all_tools ''linux'') empty_world))) = [] \<and>
   fst (create_ico_file (all_tools ''linux'') empty_world) = Returned False"
proof -
  let ?e = "all_tools ''linux''"
  have some: "\<exists>sz \<in> set ico_sizes. path_exists (png_path sz) rasters_world"
    by (simp add: ico_sizes_def rasters_world_def path_exists_def path_defs str.simps)
  have none: "\<forall>sz \<in> set ico_sizes. \<not> path_exists (png_path sz) empty_world"
    by (simp add: empty_world_def path_exists_def)
  have i: "installed ?e ''magick''" and x: "exit0 ?e (ico_cmd rasters_world)"
    by (simp_all add: tool_defs)
  note t1 = ico_packer_gate [of rasters_world ?e]
  note t2 = ico_packer_gate [of empty_world ?e]
  from t1 [THEN conjunct1] some have a1: "commands (new_events rasters_world (snd (create_ico_file ?e rasters_world)))
     = [ico_cmd rasters_world]" by simp
  from t1 [THEN conjunct2, THEN conjunct2] some i x have "\<exists>w'. create_ico_file ?e rasters_world = (Returned True, w')"
    by simp
  then have a2: "fst (create_ico_file ?e rasters_world) = Returned True" by auto
  from t2 [THEN conjunct1] none have b1: "commands (new_events empty_world (snd (create_ico_file ?e empty_world))) = []"
    by simp
  from t2 [THEN conjunct2, THEN conjunct1] none have "\<exists>w'. create_ico_file ?e empty_world = (Returned False, w')"
    by simp
  then have b2: "fst (create_ico_file ?e empty_world) = Returned False" by auto
  from some none i a1 a2 b1 b2 show ?thesis by blast
qed


subsection \<open>The favicon step\<close>

lemma favicon_mappings_eq:
  "favicon_mappings =
     [(''icons/png/icon-32x32.png'', ''favicon.png''),
      (''icons/png/icon-16x16.png'', ''favicon-16x16.png'')]"
  by (simp add: favicon_mappings_def dict_display_def)


lemma copy_favicons_fs:
  "copy_favicons e m w = (r, w') \<Longrightarrow> q \<notin> snd ` set m \<Longrightarrow> fs w' q = fs w q"
proof (induction m arbitrary: w)
  case Nil
  then show ?case by simp
next
  case (Cons a m)
  obtain src dst where a: "a = (src, dst)" by (cases a)
  from Cons.prems(2) a have q: "q \<noteq> dst" "q \<notin> snd ` set m" by auto
  show ?case
  proof (cases "path_exists src w")
    case False
    with Cons.prems(1) a have "copy_favicons e m w = (r, w')" by simp
    from Cons.IH [OF this q(2)] show ?thesis .
  next
    case True
    obtain r1 w1 where s: "subprocess_run e [''cp'', src, dst] (cp_effect src dst) w = (r1, w1)"
      by (cases "subprocess_run e [''cp'', src, dst] (cp_effect src dst) w")
    have f1: "fs w1 q = fs w q"
      using subprocess_run_fs [OF s] q(1) by (simp add: cp_effect_other)
    show ?thesis
    proof (cases r1)
      case (Returned u)
      with Cons.prems(1) a True s
      have "copy_favicons e m (print (''Generated '' @ dst) w1) = (r, w')"
        by (simp add: and_then_def)
      from Cons.IH [OF this q(2)] f1 show ?thesis by (simp add: print_def)
    next
      case (Raised x)
      with Cons.prems(1) a True s have "w' = w1" by (simp add: and_then_def)
      with f1 show ?thesis by simp
    qed
  qed
qed


lemma commands_append: "commands (xs @ ys) = commands xs @ commands ys"
  by (induction xs rule: commands.induct) simp_all


lemma create_favicon_files_fs:
  assumes "q \<noteq> ''favicon.png''" "q \<noteq> ''favicon-16x16.png''" "q \<noteq> ''favicon.ico''"
  shows "fs (snd (create_favicon_files e w)) q = fs w q"
proof -
  obtain r1 w1 where c: "copy_favicons e favicon_mappings (print ''Creating favicon files...'' w) = (r1, w1)"
    by (cases "copy_favicons e favicon_mappings (print ''Creating favicon files...'' w)")
  have f1: "fs w1 q = fs w q"
    using copy_favicons_fs [OF c, of q] assms by (simp add: favicon_mappings_eq print_def)
  have "fs (snd (create_favicon_files e w)) q = fs w1 q"
    unfolding create_favicon_files_def c using assms(3)
    by (cases r1) (simp_all add: and_then_def subprocess_run_def Let_def
          except_CalledProcessError_def print_def magick_combine_effect_def)
  with f1 show ?thesis by simp
qed






lemma fs_fold_print: "fs (fold print ls w) = fs w"
  by (induction ls arbitrary: w) (simp_all add: print_def)








subsection \<open>The three assemblers in \<open>main\<close>\<close>






subsection \<open>The PNG step\<close>

lemma convert_one_run:
  "convert_one e sz w =
     (if \<not> installed e ''magick''
      then (Raised (FileNotFoundError ''magick''), w\<lparr>trace := trace w @ [Run (convert_cmd sz)]\<rparr>)
      else if exit0 e (convert_cmd sz)
      then (Returned True,
            w\<lparr>fs := magick_convert_effect e (geometry sz) svg_file (png_path sz) (fs w),
              trace := trace w @ [Run (convert_cmd sz), Print (''Generated '' @ png_path sz)]\<rparr>)
      else (Returned False,
            w\<lparr>trace := trace w @ [Run (convert_cmd sz), Print (''Failed to generate '' @ png_path sz)]\<rparr>))"
proof -
  have hd: "hd (convert_cmd sz) = ''magick''" by (simp add: convert_cmd_def)
  show ?thesis
    by (simp add: convert_one_def subprocess_run_def and_then_def except_CalledProcessError_def
        print_def Let_def hd)
qed

lemma convert_each_all:
  assumes "installed e ''magick''" "\<forall>sz \<in> set szs. exit0 e (convert_cmd sz)"
  shows "convert_each e szs w =
     (Returned True,
      w\<lparr>fs := converted_fs e szs (fs w), trace := trace w @ generated_events szs\<rparr>)"
  using assms(2)
proof (induction szs arbitrary: w)
  case Nil
  then show ?case by (simp add: converted_fs_def generated_events_def)
next
  case (Cons sz szs)
  then have ok: "exit0 e (convert_cmd sz)" and rest: "\<forall>s \<in> set szs. exit0 e (convert_cmd s)"
    by simp_all
  show ?case
    by (simp add: convert_one_run assms(1) ok and_then_def Cons.IH [OF rest]
        converted_fs_def generated_events_def)
qed

lemma convert_each_stops:
  assumes "installed e ''magick''" "\<forall>s \<in> set pre. exit0 e (convert_cmd s)"
    "\<not> exit0 e (convert_cmd sz)"
  shows "convert_each e (pre @ sz # post) w =
     (Returned False,
      w\<lparr>fs := converted_fs e pre (fs w),
        trace := trace w @ generated_events pre
                   @ [Run (convert_cmd sz), Print (''Failed to generate '' @ png_path sz)]\<rparr>)"
  using assms(2)
proof (induction pre arbitrary: w)
  case Nil
  show ?case
    by (simp add: convert_one_run assms(1,3) and_then_def converted_fs_def generated_events_def)
next
  case (Cons s pre)
  then have ok: "exit0 e (convert_cmd s)" and rest: "\<forall>s \<in> set pre. exit0 e (convert_cmd s)"
    by simp_all
  show ?case
    by (simp add: convert_one_run assms(1) ok and_then_def Cons.IH [OF rest]
        converted_fs_def generated_events_def)
qed

lemma png_path_not_svg: "png_path sz \<noteq> svg_file"
  by (simp add: png_path_def svg_file_def)

lemma png_path_geometry: "png_path s = png_path t \<Longrightarrow> geometry s = geometry t"
  by (simp add: png_path_def)

lemma converted_fs_Cons:
  "converted_fs e (sz # szs) f =
     converted_fs e szs (magick_convert_effect e (geometry sz) svg_file (png_path sz) f)"
  by (simp add: converted_fs_def)

lemma converted_fs_other:
  "q \<notin> png_path ` set szs \<Longrightarrow> converted_fs e szs f q = f q"
proof (induction szs arbitrary: f)
  case Nil
  then show ?case by (simp add: converted_fs_def)
next
  case (Cons sz szs)
  then show ?case by (simp add: converted_fs_Cons magick_convert_effect_def)
qed

lemma converted_fs_svg: "bytes_of (converted_fs e szs f) svg_file = bytes_of f svg_file"
proof -
  have "svg_file \<notin> png_path ` set szs"
  proof
    assume "svg_file \<in> png_path ` set szs"
    then obtain t where "svg_file = png_path t" by auto
    with png_path_not_svg [of t] show False by simp
  qed
  then show ?thesis by (simp add: bytes_of_def converted_fs_other)
qed

lemma converted_fs_png:
  "sz \<in> set szs \<Longrightarrow>
   converted_fs e szs f (png_path sz) = Some (File (render e (bytes_of f svg_file) (geometry sz)))"
proof (induction szs arbitrary: f sz)
  case Nil
  then show ?case by simp
next
  case (Cons s szs)
  let ?f1 = "magick_convert_effect e (geometry s) svg_file (png_path s) f"
  have b: "bytes_of ?f1 svg_file = bytes_of f svg_file"
    using png_path_not_svg [of s] by (simp add: bytes_of_def magick_convert_effect_def)
  show ?case
  proof (cases "png_path sz \<in> png_path ` set szs")
    case True
    then obtain t where t: "t \<in> set szs" "png_path t = png_path sz" by force
    from Cons.IH [OF t(1), of ?f1] t(2) png_path_geometry [OF t(2)] b
    show ?thesis by (simp add: converted_fs_Cons)
  next
    case False
    with Cons.prems have eq: "sz = s" by auto
    from False have "converted_fs e szs ?f1 (png_path sz) = ?f1 (png_path sz)"
      by (rule converted_fs_other)
    then show ?thesis by (simp add: converted_fs_Cons eq magick_convert_effect_def)
  qed
qed

lemma commands_generated: "commands (generated_events szs) = map convert_cmd szs"
  by (induction szs) (simp_all add: generated_events_def)

text \<open>
  C3: with \<^verbatim>\<open>magick\<close> on the search path, for every list of sizes: when the conversions
  of the sizes \<open>pre\<close> succeed and the next one, \<open>sz\<close>, exits with a non-zero status, the
  loop returns \<open>False\<close> right after printing the failure, and the commands it started
  are those of \<open>pre\<close> and \<open>sz\<close> only, none for the later sizes \<open>post\<close>. When every
  conversion succeeds it returns \<open>True\<close>, having started one command per size, and each
  path \<open>icons/png/icon-NxN.png\<close> holds the rendering of the logo at that size. The same
  holds of \<open>generate_png_sizes\<close>, which runs the loop on its eight sizes when the logo
  exists.
\<close>

theorem raster_fail_fast:
  assumes magick: "installed e ''magick''"
  shows "((\<forall>s \<in> set pre. exit0 e (convert_cmd s)) \<and> \<not> exit0 e (convert_cmd sz) \<longrightarrow>
            convert_each e (pre @ sz # post) w =
              (Returned False,
               w\<lparr>fs := converted_fs e pre (fs w),
                 trace := trace w @ generated_events pre
                    @ [Run (convert_cmd sz), Print (''Failed to generate '' @ png_path sz)]\<rparr>)
          \<and> commands (new_events w (snd (convert_each e (pre @ sz # post) w)))
              = map convert_cmd (pre @ [sz]))
       \<and> ((\<forall>s \<in> set szs. exit0 e (convert_cmd s)) \<longrightarrow>
            convert_each e szs w =
              (Returned True,
               w\<lparr>fs := converted_fs e szs (fs w), trace := trace w @ generated_events szs\<rparr>)
          \<and> commands (new_events w (snd (convert_each e szs w))) = map convert_cmd szs
          \<and> (\<forall>s \<in> set szs. fs (snd (convert_each e szs w)) (png_path s)
                = Some (File (render e (bytes_of (fs w) svg_file) (geometry s)))))
       \<and> (path_exists svg_file w \<and> sizes = pre @ sz # post
            \<and> (\<forall>s \<in> set pre. exit0 e (convert_cmd s)) \<and> \<not> exit0 e (convert_cmd sz) \<longrightarrow>
            fst (generate_png_sizes e w) = Returned False
          \<and> commands (new_events w (snd (generate_png_sizes e w))) = map convert_cmd (pre @ [sz]))
       \<and> (path_exists svg_file w \<and> (\<forall>s \<in> set sizes. exit0 e (convert_cmd s)) \<longrightarrow>
            fst (generate_png_sizes e w) = Returned True
          \<and> commands (new_events w (snd (generate_png_sizes e w))) = map convert_cmd sizes
          \<and> (\<forall>s \<in> set sizes. fs (snd (generate_png_sizes e w)) (png_path s)
                = Some (File (render e (bytes_of (fs w) svg_file) (geometry s)))))
       \<and> (\<forall>s. last (convert_cmd s) = ''icons/png/icon-'' @ str s @ ''x'' @ str s @ ''.png'')"
proof -
  have A: "convert_each e (pre @ sz # post) w =
              (Returned False,
               w\<lparr>fs := converted_fs e pre (fs w),
                 trace := trace w @ generated_events pre
                    @ [Run (convert_cmd sz), Print (''Failed to generate '' @ png_path sz)]\<rparr>)
          \<and> commands (new_events w (snd (convert_each e (pre @ sz # post) w)))
              = map convert_cmd (pre @ [sz])"
    if "\<forall>s \<in> set pre. exit0 e (convert_cmd s)" "\<not> exit0 e (convert_cmd sz)" for w pre sz post
    by (simp add: convert_each_stops [OF magick that] new_events_def commands_append
        commands_generated)
  have B: "convert_each e szs w =
              (Returned True,
               w\<lparr>fs := converted_fs e szs (fs w), trace := trace w @ generated_events szs\<rparr>)
          \<and> commands (new_events w (snd (convert_each e szs w))) = map convert_cmd szs
          \<and> (\<forall>s \<in> set szs. fs (snd (convert_each e szs w)) (png_path s)
                = Some (File (render e (bytes_of (fs w) svg_file) (geometry s))))"
    if "\<forall>s \<in> set szs. exit0 e (convert_cmd s)" for w szs
    by (simp add: convert_each_all [OF magick that] new_events_def commands_generated
        converted_fs_png)
  let ?w0 = "print ''Generating PNG files...'' w"
  have g: "generate_png_sizes e w = convert_each e sizes ?w0" if "path_exists svg_file w"
    using that by (simp add: generate_png_sizes_def)
  have A': "fst (generate_png_sizes e w) = Returned False
          \<and> commands (new_events w (snd (generate_png_sizes e w))) = map convert_cmd (pre @ [sz])"
    if "path_exists svg_file w" "sizes = pre @ sz # post"
       "\<forall>s \<in> set pre. exit0 e (convert_cmd s)" "\<not> exit0 e (convert_cmd sz)"
  proof -
    have "generate_png_sizes e w = convert_each e (pre @ sz # post) ?w0"
      using g [OF that(1)] that(2) by simp
    then show ?thesis
      by (simp add: convert_each_stops [OF magick that(3,4)] new_events_def print_def
          commands_append commands_generated)
  qed
  have B': "fst (generate_png_sizes e w) = Returned True
          \<and> commands (new_events w (snd (generate_png_sizes e w))) = map convert_cmd sizes
          \<and> (\<forall>s \<in> set sizes. fs (snd (generate_png_sizes e w)) (png_path s)
                = Some (File (render e (bytes_of (fs w) svg_file) (geometry s))))"
    if "path_exists svg_file w" "\<forall>s \<in> set sizes. exit0 e (convert_cmd s)"
    by (simp add: g [OF that(1)] convert_each_all [OF magick that(2)] new_events_def print_def
        commands_append commands_generated converted_fs_png)
  have P: "last (convert_cmd s) = ''icons/png/icon-'' @ str s @ ''x'' @ str s @ ''.png''" for s
    by (simp add: convert_cmd_def png_path_def geometry_def)
  from A B A' B' P show ?thesis by blast
qed

theorem raster_fail_fast_witness:
  "installed (failing ''linux'' [convert_cmd 48]) ''magick'' \<and>
   path_exists svg_file svg_world \<and>
   sizes = [16, 32] @ 48 # [64, 128, 256, 512, 1024] \<and>
   exit0 (failing ''linux'' [convert_cmd 48]) (convert_cmd 16) \<and>
   exit0 (failing ''linux'' [convert_cmd 48]) (convert_cmd 32) \<and>
   \<not> exit0 (failing ''linux'' [convert_cmd 48]) (convert_cmd 48) \<and>
   fst (generate_png_sizes (failing ''linux'' [convert_cmd 48]) svg_world) = Returned False \<and>
   commands (new_events svg_world
       (snd (generate_png_sizes (failing ''linux'' [convert_cmd 48]) svg_world)))
     = [convert_cmd 16, convert_cmd 32, convert_cmd 48] \<and>
   fst (generate_png_sizes (all_tools ''linux'') svg_world) = Returned True \<and>
   fs (snd (generate_png_sizes (all_tools ''linux'') svg_world)) (png_path 1024)
     = Some (File ''1024x1024:<svg/>'')"
proof -
  let ?bad = "failing ''linux'' [convert_cmd 48]" and ?ok = "all_tools ''linux''"
  have m: "installed ?bad ''magick''" "installed ?ok ''magick''"
    by (simp_all add: tool_defs)
  have p: "path_exists svg_file svg_world"
    by (simp add: svg_world_def path_exists_def)
  have s: "sizes = [16, 32] @ 48 # [64, 128, 256, 512, 1024]"
    by (simp add: sizes_def)
  have x: "exit0 ?bad (convert_cmd 16)" "exit0 ?bad (convert_cmd 32)"
    "\<not> exit0 ?bad (convert_cmd 48)"
    by (simp_all add: tool_defs convert_cmd_def path_defs str.simps)
  then have pre: "\<forall>s \<in> set [16, 32]. exit0 ?bad (convert_cmd s)" by simp
  have all: "\<forall>s \<in> set sizes. exit0 ?ok (convert_cmd s)" by (simp add: tool_defs)
  note t1 = raster_fail_fast [OF m(1), of "[16, 32]" 48 "[64, 128, 256, 512, 1024]" svg_world "[]",
      THEN conjunct2, THEN conjunct2, THEN conjunct1, THEN mp, OF conjI [OF p conjI [OF s conjI [OF pre x(3)]]]]
  note t2 = raster_fail_fast [OF m(2), of "[]" 0 "[]" svg_world "[]",
      THEN conjunct2, THEN conjunct2, THEN conjunct2, THEN conjunct1, THEN mp, OF conjI [OF p all]]
  from t1 have a: "fst (generate_png_sizes ?bad svg_world) = Returned False"
    and b: "commands (new_events svg_world (snd (generate_png_sizes ?bad svg_world)))
     = [convert_cmd 16, convert_cmd 32, convert_cmd 48]"
    by simp_all
  from t2 have c: "fst (generate_png_sizes ?ok svg_world) = Returned True" by simp
  have "1024 \<in> set sizes" by (simp add: sizes_def)
  with t2 have "fs (snd (generate_png_sizes ?ok svg_world)) (png_path 1024)
     = Some (File (render ?ok (bytes_of (fs svg_world) svg_file) (geometry 1024)))"
    by blast
  then have d: "fs (snd (generate_png_sizes ?ok svg_world)) (png_path 1024)
     = Some (File ''1024x1024:<svg/>'')"
    by (simp add: tool_defs svg_world_def bytes_of_def geometry_def str.simps)
  from m(1) p s x a b c d show ?thesis by (intro conjI)
qed


subsection \<open>Running the pipeline again\<close>

lemma convert_each_fs:
  "fs (snd (convert_each e szs w)) = converted_fs e (converted e szs) (fs w)"
proof (induction szs arbitrary: w)
  case Nil
  show ?case by (simp add: converted_def converted_fs_def)
next
  case (Cons sz szs)
  show ?case
  proof (cases "installed e ''magick''")
    case False
    then show ?thesis
      by (simp add: convert_one_run and_then_def converted_def converted_fs_def)
  next
    case True
    show ?thesis
    proof (cases "exit0 e (convert_cmd sz)")
      case False
      with True show ?thesis
        by (simp add: convert_one_run and_then_def converted_def converted_fs_def)
    next
      case ok: True
      from True ok have c: "converted e (sz # szs) = sz # converted e szs"
        by (simp add: converted_def)
      from True ok show ?thesis
        by (simp add: convert_one_run and_then_def c converted_fs_Cons Cons.IH)
    qed
  qed
qed

lemma generate_png_sizes_fs:
  "fs (snd (generate_png_sizes e w)) =
     (if path_exists svg_file w then converted_fs e (converted e sizes) (fs w) else fs w)"
  by (simp add: generate_png_sizes_def convert_each_fs print_def)

lemma under_take: "under d p \<Longrightarrow> take (length d) p = d"
proof -
  assume "under d p"
  then consider "p = d" | "take (Suc (length d)) p = d @ ''/''" by (auto simp: under_def)
  then show ?thesis
  proof cases
    case 1
    then show ?thesis by simp
  next
    case 2
    have "take (length d) p = take (length d) (take (Suc (length d)) p)" by simp
    also have "\<dots> = d" unfolding 2 by simp
    finally show ?thesis .
  qed
qed

lemma kept_png: "kept (png_path sz)"
proof -
  have "\<not> under iconset_dir (png_path sz)"
  proof
    assume "under iconset_dir (png_path sz)"
    from under_take [OF this] have "take 8 (take (length iconset_dir) (png_path sz)) = take 8 iconset_dir"
      by simp
    then show False by (simp add: iconset_dir_def png_path_def)
  qed
  then show ?thesis
    by (simp add: kept_def png_path_def ico_file_def config_file_def)
qed

lemma kept_fixed: "kept svg_file" "kept ''icons''" "kept ''icons/png''" "kept ''build''"
  by (simp_all add: kept_def under_def svg_file_def iconset_dir_def ico_file_def config_file_def)

lemma mkdir_fs:
  "mkdir p w = (r, w') \<Longrightarrow> q \<noteq> p \<Longrightarrow> fs w' q = fs w q"
  by (cases r) (auto dest: mkdir_Returned mkdir_Raised)

lemma icns_path: "take (length iconset_dir - 8) iconset_dir @ ''.icns'' = ''icons/prestige-ai.icns''"
  by (simp add: iconset_dir_def)

lemma create_icns_file_fs:
  assumes "kept q"
  shows "fs (snd (create_icns_file e w)) q = fs w q"
proof (cases "platform e = ''darwin''")
  case False
  then show ?thesis by (simp add: create_icns_file_def print_def)
next
  case True
  from assms have nu: "\<not> under iconset_dir q" and ni: "q \<noteq> ''icons/prestige-ai.icns''"
    by (simp_all add: kept_def)
  from nu have nd: "q \<noteq> iconset_dir" and ns: "\<And>n. q \<noteq> iconset_dir @ ''/'' @ n"
    by (auto simp: under_def)
  obtain r1 w1 where m: "mkdir iconset_dir w = (r1, w1)" by (cases "mkdir iconset_dir w")
  have f1: "fs w1 q = fs w q" using mkdir_fs [OF m nd] .
  obtain r2 w2 where f: "fill_iconset e icon_mappings (print ''Creating .icns file...'' w1) = (r2, w2)"
    by (cases "fill_iconset e icon_mappings (print ''Creating .icns file...'' w1)")
  have f2: "fs w2 q = fs w q"
    using fill_iconset_fs [OF f ns] f1 by (simp add: print_def)
  let ?guarded = "except_CalledProcessError
            (and_then
               (subprocess_run e iconutil_cmd
                  (iconutil_effect e iconset_dir (concat (map snd icon_mappings))) w2)
               (\<lambda>u w3.
            and_then
               (subprocess_run e rm_cmd (rm_rf_effect iconset_dir)
                  (print ''Generated icons/prestige-ai.icns'' w3))
               (\<lambda>u w4. (Returned True, w4))))
            (\<lambda>w3. (Returned False, print ''Failed to create .icns file'' w3))"
  have t: "fs (snd ?guarded) q = fs w2 q"
    using nu ni
    by (simp add: subprocess_run_def and_then_def except_CalledProcessError_def print_def Let_def
        iconutil_effect_def rm_rf_effect_def icns_path)
  show ?thesis
  proof (cases r1)
    case (Raised x)
    with m True f1 show ?thesis by (simp add: create_icns_file_def and_then_def)
  next
    case r1: (Returned u)
    show ?thesis
    proof (cases r2)
      case (Raised x)
      with m r1 f True f2 show ?thesis by (simp add: create_icns_file_def and_then_def)
    next
      case (Returned v)
      with m r1 f True have "create_icns_file e w = ?guarded"
        by (simp add: create_icns_file_def and_then_def)
      with t f2 show ?thesis by simp
    qed
  qed
qed

lemma create_ico_file_fs:
  "q \<noteq> ico_file \<Longrightarrow> fs (snd (create_ico_file e w)) q = fs w q"
  by (simp add: create_ico_file_def subprocess_run_def and_then_def except_CalledProcessError_def
      print_def Let_def magick_combine_effect_def)

lemma update_electron_config_fs:
  "q \<noteq> config_file \<Longrightarrow> fs (snd (update_electron_config w)) q = fs w q"
  by (simp add: update_electron_config_def write_text_def and_then_def print_def Let_def
      split: option.splits node.splits)

lemma and_then_snd:
  assumes "\<And>v w'. r = (Returned v, w') \<Longrightarrow> P (snd (k v w'))"
    and "\<And>x w'. r = (Raised x, w') \<Longrightarrow> P w'"
  shows "P (snd (and_then r k))"
proof (cases r)
  case (Pair a w')
  then show ?thesis using assms by (cases a) (simp_all add: and_then_def)
qed

lemma assemble_fs:
  assumes "kept q"
  shows "fs (snd (assemble e w)) q = fs w q"
proof -
  from assms have n: "q \<noteq> ico_file" "q \<noteq> ''favicon.png''" "q \<noteq> ''favicon-16x16.png''"
      "q \<noteq> ''favicon.ico''" "q \<noteq> config_file"
    by (simp_all add: kept_def)
  note icns = create_icns_file_fs [OF assms]
  note ico = create_ico_file_fs [OF n(1)]
  note fav = create_favicon_files_fs [OF n(2,3,4)]
  note upd = update_electron_config_fs [OF n(5)]
  show ?thesis
    unfolding assemble_def
  proof (rule and_then_snd)
    fix x w1 assume "create_icns_file e w = (Raised x, w1)"
    with icns [of e w] show "fs w1 q = fs w q" by simp
  next
    fix v w1 assume "create_icns_file e w = (Returned v, w1)"
    with icns [of e w] have a: "fs w1 q = fs w q" by simp
    show "fs (snd (and_then (create_ico_file e w1) (\<lambda>ico_ok w2.
       and_then (create_favicon_files e w2) (\<lambda>u w3.
       and_then (update_electron_config w3) (\<lambda>u w4.
         (Returned (), fold print closing_lines w4)))))) q = fs w q"
    proof (rule and_then_snd)
      fix x w2 assume "create_ico_file e w1 = (Raised x, w2)"
      with ico [of e w1] a show "fs w2 q = fs w q" by simp
    next
      fix v2 w2 assume "create_ico_file e w1 = (Returned v2, w2)"
      with ico [of e w1] a have b: "fs w2 q = fs w q" by simp
      show "fs (snd (and_then (create_favicon_files e w2) (\<lambda>u w3.
         and_then (update_electron_config w3) (\<lambda>u w4.
           (Returned (), fold print closing_lines w4))))) q = fs w q"
      proof (rule and_then_snd)
        fix x w3 assume "create_favicon_files e w2 = (Raised x, w3)"
        with fav [of e w2] b show "fs w3 q = fs w q" by simp
      next
        fix v3 w3 assume "create_favicon_files e w2 = (Returned v3, w3)"
        with fav [of e w2] b have c: "fs w3 q = fs w q" by simp
        show "fs (snd (and_then (update_electron_config w3) (\<lambda>u w4.
             (Returned (), fold print closing_lines w4)))) q = fs w q"
        proof (rule and_then_snd)
          fix x w4 assume "update_electron_config w3 = (Raised x, w4)"
          with upd [of w3] c show "fs w4 q = fs w q" by simp
        next
          fix v4 w4 assume "update_electron_config w3 = (Returned v4, w4)"
          with upd [of w3] c show "fs (snd (Returned (), fold print closing_lines w4)) q = fs w q"
            by (simp add: fs_fold_print)
        qed
      qed
    qed
  qed
qed

lemma check_dependencies_value:
  "fst (check_dependencies e w) = fst (check_dependencies e w')"
  by (simp add: check_dependencies_def required_tools_def dict_display_def
        subprocess_run_def and_then_def print_def Let_def)

lemma mkdir_fs_only:
  "fs v = fs w \<Longrightarrow>
   fst (mkdir p v) = fst (mkdir p w) \<and> fs (snd (mkdir p v)) = fs (snd (mkdir p w))"
  by (simp add: mkdir_def Let_def split: option.splits node.splits)

lemma mkdir_on_dir:
  "fs v p = Some Dir \<Longrightarrow> mkdir p v = (Returned (), v\<lparr>trace := trace v @ [Mkdir p]\<rparr>)"
  by (simp add: mkdir_def Let_def)

lemma mkdir_keeps_dir:
  "mkdir p w = (r, w') \<Longrightarrow> fs w q = Some Dir \<Longrightarrow> fs w' q = Some Dir"
  by (cases r) (auto dest!: mkdir_Returned mkdir_Raised)

lemma mkdir_each_keeps_dir:
  "mkdir_each ds w = (r, w') \<Longrightarrow> fs w q = Some Dir \<Longrightarrow> fs w' q = Some Dir"
proof (induction ds arbitrary: w)
  case Nil
  then show ?case by simp
next
  case (Cons d ds)
  obtain r1 w1 where m: "mkdir d w = (r1, w1)" by (cases "mkdir d w")
  note k = mkdir_keeps_dir [OF m Cons.prems(2)]
  show ?case
  proof (cases r1)
    case (Returned u)
    with Cons.prems(1) m have "mkdir_each ds w1 = (r, w')" by (simp add: and_then_def)
    from Cons.IH [OF this k] show ?thesis .
  next
    case (Raised x)
    with Cons.prems(1) m have "w' = w1" by (simp add: and_then_def)
    with k show ?thesis by simp
  qed
qed

lemma mkdir_each_on_dirs:
  "\<forall>d \<in> set ds. fs v d = Some Dir \<Longrightarrow>
   mkdir_each ds v = (Returned (), v\<lparr>trace := trace v @ map Mkdir ds\<rparr>)"
proof (induction ds arbitrary: v)
  case Nil
  then show ?case by simp
next
  case (Cons d ds)
  let ?v1 = "v\<lparr>trace := trace v @ [Mkdir d]\<rparr>"
  from Cons.prems have m: "mkdir d v = (Returned (), ?v1)" by (simp add: mkdir_on_dir)
  from Cons.prems have "\<forall>d \<in> set ds. fs ?v1 d = Some Dir" by simp
  from Cons.IH [OF this] m show ?case by (simp add: and_then_def)
qed

lemma mkdir_each_raise_stable:
  "mkdir_each ds w = (Raised x, w1) \<Longrightarrow> fs v = fs w1 \<Longrightarrow>
   \<exists>x' v'. mkdir_each ds v = (Raised x', v') \<and> fs v' = fs v"
proof (induction ds arbitrary: w v)
  case Nil
  then show ?case by simp
next
  case (Cons d ds)
  obtain r2 w2 where m: "mkdir d w = (r2, w2)" by (cases "mkdir d w")
  show ?case
  proof (cases r2)
    case (Raised y)
    with Cons.prems(1) m have w1: "w1 = w2" by (simp add: and_then_def)
    from mkdir_Raised [OF m [unfolded Raised]] w1 Cons.prems(2) have fv: "fs v = fs w" by simp
    obtain r3 v3 where mv: "mkdir d v = (r3, v3)" by (cases "mkdir d v")
    from mkdir_fs_only [OF fv, of d] m mv Raised have r3: "r3 = Raised y" by simp
    from mkdir_Raised [OF mv [unfolded r3]] have "fs v3 = fs v" by simp
    with mv r3 show ?thesis by (simp add: and_then_def)
  next
    case (Returned u)
    with Cons.prems(1) m have rest: "mkdir_each ds w2 = (Raised x, w1)" by (simp add: and_then_def)
    from mkdir_Returned [OF m [unfolded Returned]] have "fs w2 d = Some Dir" by simp
    from mkdir_each_keeps_dir [OF rest this] Cons.prems(2) have "fs v d = Some Dir" by simp
    then have mv: "mkdir d v = (Returned (), v\<lparr>trace := trace v @ [Mkdir d]\<rparr>)"
      by (rule mkdir_on_dir)
    have "fs (v\<lparr>trace := trace v @ [Mkdir d]\<rparr>) = fs w1" using Cons.prems(2) by simp
    from Cons.IH [OF rest this] mv show ?thesis by (simp add: and_then_def)
  qed
qed

lemma main_after_dirs:
  assumes cd: "check_dependencies e (banner w) = (Returned True, wd)"
    and dirs: "create_directories wd = (Returned (), wp)"
    and q: "kept q"
  shows "fs (snd (main e w)) q =
     (if path_exists svg_file wp then converted_fs e (converted e sizes) (fs wp) q else fs wp q)"
proof -
  obtain rg wg where g: "generate_png_sizes e wp = (rg, wg)"
    by (cases "generate_png_sizes e wp")
  from generate_png_sizes_fs [of e wp] g
  have fg: "fs wg q =
     (if path_exists svg_file wp then converted_fs e (converted e sizes) (fs wp) q else fs wp q)"
    by simp
  have "fs (snd (main e w)) q = fs wg q"
  proof (cases rg)
    case (Raised x)
    then show ?thesis by (simp add: main_def cd dirs g and_then_def)
  next
    case (Returned ok)
    then show ?thesis
      by (cases ok) (simp_all add: main_def cd dirs g and_then_def print_def assemble_fs [OF q])
  qed
  with fg show ?thesis by simp
qed

lemma reconvert_same:
  assumes svg: "f' svg_file = f svg_file"
    and png: "f' (png_path sz) = converted_fs e szs f (png_path sz)"
  shows "converted_fs e szs f' (png_path sz) = f' (png_path sz)"
proof (cases "png_path sz \<in> png_path ` set szs")
  case False
  then show ?thesis by (rule converted_fs_other)
next
  case True
  then obtain t where t: "t \<in> set szs" "png_path sz = png_path t" by auto
  have b: "bytes_of f' svg_file = bytes_of f svg_file" by (simp add: bytes_of_def svg)
  from converted_fs_png [OF t(1), of e f'] converted_fs_png [OF t(1), of e f] png b t(2)
  show ?thesis by simp
qed

lemma create_directories_fs:
  assumes "create_directories w = (Returned u, w')"
  shows "fs w' = (fs w)(''icons'' \<mapsto> Dir, ''icons/png'' \<mapsto> Dir, ''build'' \<mapsto> Dir)"
  using mkdir_each_Returned [OF assms [unfolded create_directories_def]] by simp

lemma main_rerun_png:
  "fs (snd (main e (snd (main e w)))) (png_path sz) = fs (snd (main e w)) (png_path sz)"
proof -
  let ?w' = "snd (main e w)"
  obtain b evs where cd: "check_dependencies e (banner w)
          = (Returned b, (banner w)\<lparr>trace := trace (banner w) @ evs\<rparr>)"
    using check_dependencies_frame by blast
  let ?wd = "(banner w)\<lparr>trace := trace (banner w) @ evs\<rparr>"
  have fwd: "fs ?wd = fs w" by (simp add: banner_def print_def)
  obtain b' evs' where cd': "check_dependencies e (banner ?w')
          = (Returned b', (banner ?w')\<lparr>trace := trace (banner ?w') @ evs'\<rparr>)"
    using check_dependencies_frame by blast
  let ?wd' = "(banner ?w')\<lparr>trace := trace (banner ?w') @ evs'\<rparr>"
  have fwd': "fs ?wd' = fs ?w'" by (simp add: banner_def print_def)
  from check_dependencies_value [of e "banner w" "banner ?w'"] cd cd' have bb: "b' = b" by simp
  show ?thesis
  proof (cases b)
    case False
    then have "fs (snd (main e ?w')) = fs ?w'"
      using cd' bb fwd' by (simp add: main_def and_then_def print_def)
    then show ?thesis by simp
  next
    case True
    from cd True have cdT: "check_dependencies e (banner w) = (Returned True, ?wd)" by simp
    from cd' bb True have cdT': "check_dependencies e (banner ?w') = (Returned True, ?wd')"
      by simp
    obtain r wp where dirs: "create_directories ?wd = (r, wp)"
      by (cases "create_directories ?wd")
    show ?thesis
    proof (cases r)
      case (Raised x)
      with cd True dirs have w': "?w' = wp" by (simp add: main_def and_then_def)
      from fwd' w' have "fs ?wd' = fs wp" by simp
      from mkdir_each_raise_stable [OF dirs [unfolded Raised create_directories_def] this]
      obtain x' v' where "create_directories ?wd' = (Raised x', v')" "fs v' = fs ?wd'"
        by (auto simp: create_directories_def)
      with cd' bb True fwd' have "fs (snd (main e ?w')) = fs ?w'"
        by (simp add: main_def and_then_def)
      then show ?thesis by simp
    next
      case (Returned u)
      with dirs have dirs1: "create_directories ?wd = (Returned (), wp)" by simp
      note fp = create_directories_fs [OF dirs1]
      note first = main_after_dirs [OF cdT dirs1]
      have svg_p: "fs wp svg_file = fs w svg_file"
        by (simp add: fp fwd svg_file_def)
      have other: "converted_fs e (converted e sizes) (fs wp) q = fs wp q"
        if "q \<in> {svg_file, ''icons'', ''icons/png'', ''build''}" for q
      proof (rule converted_fs_other)
        show "q \<notin> png_path ` set (converted e sizes)"
          using that by (auto simp: png_path_def svg_file_def)
      qed
      have keep: "fs ?w' q = fs wp q"
        if "q \<in> {svg_file, ''icons'', ''icons/png'', ''build''}" for q
      proof -
        from that kept_fixed have "kept q" by auto
        from first [OF this] other [OF that] show ?thesis by simp
      qed
      have "\<forall>d \<in> set [''icons'', ''icons/png'', ''build'']. fs ?wd' d = Some Dir"
        using keep fp fwd' by simp
      from mkdir_each_on_dirs [OF this]
      have dirs': "create_directories ?wd' = (Returned (),
          ?wd'\<lparr>trace := trace ?wd' @ map Mkdir [''icons'', ''icons/png'', ''build'']\<rparr>)"
        by (simp add: create_directories_def)
      let ?wp' = "?wd'\<lparr>trace := trace ?wd' @ map Mkdir [''icons'', ''icons/png'', ''build'']\<rparr>"
      have fp': "fs ?wp' = fs ?w'" using fwd' by simp
      note second = main_after_dirs [OF cdT' dirs' kept_png, of sz]
      note one = first [OF kept_png, of sz]
      have svg': "fs ?w' svg_file = fs wp svg_file" using keep by simp
      then have ex: "path_exists svg_file ?wp' = path_exists svg_file wp"
        by (simp add: path_exists_def banner_def print_def)
      show ?thesis
      proof (cases "path_exists svg_file wp")
        case False
        with second ex show ?thesis by (simp add: banner_def print_def)
      next
        case True
        with one have png: "fs ?w' (png_path sz)
            = converted_fs e (converted e sizes) (fs wp) (png_path sz)" by simp
        from reconvert_same [OF svg' png] second ex True show ?thesis
          by (simp add: banner_def print_def)
      qed
    qed
  qed
qed

lemmas deps_defs = check_dependencies_def required_tools_def dict_display_def banner_def

text \<open>
  C10: the tools being functions of their command line and of the bytes they read, the
  PNG outputs are reproducible. Running \<open>main\<close> a second time on the world the first
  run left gives the same nodes at the eight PNG paths. And two runs on different
  worlds that hold the same logo, both passing the dependency check and the directory
  step, generate the same PNG files (those of the sizes whose conversion succeeds, a
  list fixed by the tools) with the same bytes: the rendering of the logo at each size.
\<close>

theorem png_outputs_reproducible:
  "png_outputs (snd (main e (snd (main e w)))) = png_outputs (snd (main e w))
   \<and> (fs w1 svg_file = fs w2 svg_file \<and> path_exists svg_file w1
        \<and> check_dependencies e (banner w1) = (Returned True, wd1)
        \<and> create_directories wd1 = (Returned (), wp1)
        \<and> check_dependencies e (banner w2) = (Returned True, wd2)
        \<and> create_directories wd2 = (Returned (), wp2)
       \<longrightarrow> (\<forall>sz \<in> set (converted e sizes).
              fs (snd (main e w1)) (png_path sz)
                = Some (File (render e (bytes_of (fs w1) svg_file) (geometry sz)))
            \<and> fs (snd (main e w2)) (png_path sz) = fs (snd (main e w1)) (png_path sz)))"
proof -
  have 1: "png_outputs (snd (main e (snd (main e w)))) = png_outputs (snd (main e w))"
    by (simp add: png_outputs_def main_rerun_png)
  have run: "fs (snd (main e v)) (png_path sz)
               = Some (File (render e (bytes_of (fs v) svg_file) (geometry sz)))"
    if cd: "check_dependencies e (banner v) = (Returned True, vd)"
      and dirs: "create_directories vd = (Returned (), vp)"
      and svg: "path_exists svg_file v" and sz: "sz \<in> set (converted e sizes)"
    for v vd vp sz
  proof -
    have "fs vd = fs v"
      using check_dependencies_fs [OF cd] by (simp add: banner_def print_def)
    with create_directories_fs [OF dirs] have s: "fs vp svg_file = fs v svg_file"
      by (simp add: svg_file_def)
    then have ex: "path_exists svg_file vp" and b: "bytes_of (fs vp) svg_file = bytes_of (fs v) svg_file"
      using svg by (simp_all add: path_exists_def bytes_of_def)
    from main_after_dirs [OF cd dirs kept_png, of sz] ex converted_fs_png [OF sz, of e "fs vp"] b
    show ?thesis by simp
  qed
  have 2: "\<forall>sz \<in> set (converted e sizes).
              fs (snd (main e w1)) (png_path sz)
                = Some (File (render e (bytes_of (fs w1) svg_file) (geometry sz)))
            \<and> fs (snd (main e w2)) (png_path sz) = fs (snd (main e w1)) (png_path sz)"
    if h: "fs w1 svg_file = fs w2 svg_file" "path_exists svg_file w1"
       "check_dependencies e (banner w1) = (Returned True, wd1)"
       "create_directories wd1 = (Returned (), wp1)"
       "check_dependencies e (banner w2) = (Returned True, wd2)"
       "create_directories wd2 = (Returned (), wp2)"
  proof
    fix sz assume sz: "sz \<in> set (converted e sizes)"
    from h(1,2) have svg2: "path_exists svg_file w2"
      and b: "bytes_of (fs w2) svg_file = bytes_of (fs w1) svg_file"
      by (simp_all add: path_exists_def bytes_of_def)
    from run [OF h(3,4,2) sz] run [OF h(5,6) svg2 sz] b
    show "fs (snd (main e w1)) (png_path sz)
                = Some (File (render e (bytes_of (fs w1) svg_file) (geometry sz)))
            \<and> fs (snd (main e w2)) (png_path sz) = fs (snd (main e w1)) (png_path sz)"
      by simp
  qed
  from 1 2 show ?thesis by blast
qed

theorem png_outputs_reproducible_witness:
  "fs svg_world svg_file = fs stale_world svg_file \<and>
   path_exists svg_file svg_world \<and>
   fst (check_dependencies (all_tools ''linux'') (banner svg_world)) = Returned True \<and>
   fst (create_directories (snd (check_dependencies (all_tools ''linux'') (banner svg_world))))
     = Returned () \<and>
   fst (check_dependencies (all_tools ''linux'') (banner stale_world)) = Returned True \<and>
   fst (create_directories (snd (check_dependencies (all_tools ''linux'') (banner stale_world))))
     = Returned () \<and>
   16 \<in> set (converted (all_tools ''linux'') sizes) \<and>
   fs stale_world (png_path 16) = Some (File ''stale'') \<and>
   fs (snd (main (all_tools ''linux'') svg_world)) (png_path 16) = Some (File ''16x16:<svg/>'') \<and>
   fs (snd (main (all_tools ''linux'') stale_world)) (png_path 16) = Some (File ''16x16:<svg/>'') \<and>
   png_outputs (snd (main (all_tools ''linux'') (snd (main (all_tools ''linux'') stale_world))))
     = png_outputs (snd (main (all_tools ''linux'') stale_world))"
proof -
  let ?e = "all_tools ''linux''"
  let ?d1 = "snd (check_dependencies ?e (banner svg_world))"
  let ?d2 = "snd (check_dependencies ?e (banner stale_world))"
  have s: "fs svg_world svg_file = fs stale_world svg_file"
    and p: "path_exists svg_file svg_world"
    and st: "fs stale_world (png_path 16) = Some (File ''stale'')"
    by (simp_all add: svg_world_def stale_world_def path_exists_def path_defs str.simps)
  have c1: "fst (check_dependencies ?e (banner svg_world)) = Returned True"
    and c2: "fst (check_dependencies ?e (banner stale_world)) = Returned True"
    by (simp_all add: deps_defs tool_defs step_defs)
  have m1: "fst (create_directories ?d1) = Returned ()"
    by (simp add: create_directories_def deps_defs svg_world_def tool_defs step_defs path_defs)
  have m2: "fst (create_directories ?d2) = Returned ()"
    by (simp add: create_directories_def deps_defs stale_world_def tool_defs step_defs path_defs)
  from c1 have cd1: "check_dependencies ?e (banner svg_world) = (Returned True, ?d1)"
    by (metis prod.collapse)
  from c2 have cd2: "check_dependencies ?e (banner stale_world) = (Returned True, ?d2)"
    by (metis prod.collapse)
  from m1 have dr1: "create_directories ?d1 = (Returned (), snd (create_directories ?d1))"
    by (metis prod.collapse)
  from m2 have dr2: "create_directories ?d2 = (Returned (), snd (create_directories ?d2))"
    by (metis prod.collapse)
  have i: "16 \<in> set (converted ?e sizes)"
    by (simp add: converted_def sizes_def tool_defs)
  note t = png_outputs_reproducible [of ?e stale_world svg_world stale_world ?d1
      "snd (create_directories ?d1)" ?d2 "snd (create_directories ?d2)"]
  note t2 = t [THEN conjunct2, THEN mp,
      OF conjI [OF s conjI [OF p conjI [OF cd1 conjI [OF dr1 conjI [OF cd2 dr2]]]]], THEN bspec, OF i]
  from t2 have a: "fs (snd (main ?e svg_world)) (png_path 16) = Some (File ''16x16:<svg/>'')"
    by (simp add: tool_defs svg_world_def bytes_of_def geometry_def str.simps)
  from t2 a have b: "fs (snd (main ?e stale_world)) (png_path 16) = Some (File ''16x16:<svg/>'')"
    by simp
  from s p c1 m1 c2 m2 i st a b t [THEN conjunct1] show ?thesis by (intro conjI)
qed

end
